theory Spec2Isabelle
  imports Main "HOL-Library.Word"
begin

section \<open>The request dispatcher of daily.go\<close>

subsection \<open>Values handed to and received from the Go standard library\<close>

text \<open>
  A Go \<open>interface{}\<close> argument carries a dynamic type besides its value. What
  \<open>json.Unmarshal\<close> needs to know of its destination is whether it is the nil interface, a
  nil pointer, a pointer to a value it can fill in place, or a value that is not a pointer.
  The string is the Go name of the dynamic type, as \<open>reflect.Type.String\<close> prints it.
\<close>

datatype 'a iface =
    NilInterface
  | NilPointer string
  | Pointer 'a
  | NonPointer string 'a

text \<open>
  \<open>http.Request\<close> and \<open>http.Response\<close>, with the fields the dispatcher touches. The
  response body is the byte string that \<open>ioutil.ReadAll\<close> returned: \<open>request\<close>
  discards the error of that read (line 204).
\<close>

record Request =
  req_Method :: string
  req_URL :: string
  req_Header :: "string \<rightharpoonup> string list"
  req_Body :: "string option"

record Response =
  resp_StatusCode :: int
  resp_Body :: string

definition StatusOK :: int where "StatusOK = 200"
definition StatusBadRequest :: int where "StatusBadRequest = 400"
definition StatusUnauthorized :: int where "StatusUnauthorized = 401"
definition StatusTooManyRequests :: int where "StatusTooManyRequests = 429"
definition StatusInternalServerError :: int where "StatusInternalServerError = 500"

text \<open>\<open>http.Header.Set\<close>: the values stored under the key are replaced by the one value.\<close>

definition Header_Set :: "(string \<rightharpoonup> string list) \<Rightarrow> string \<Rightarrow> string \<Rightarrow> (string \<rightharpoonup> string list)" where
  "Header_Set h k v = h(k \<mapsto> [v])"

text \<open>
  The library functions \<open>request\<close> calls, taken as parameters: \<open>url.Parse\<close>,
  \<open>URL.ResolveReference\<close>, \<open>URL.String\<close>, \<open>http.NewRequest\<close> and the syntax check
  that \<open>json.Unmarshal\<close> runs over its input before it looks at the destination. A failing
  call returns \<open>Inl\<close> of the text of its error.
\<close>

record 'u stdlib =
  url_Parse :: "string \<Rightarrow> string + 'u"
  ResolveReference :: "'u \<Rightarrow> 'u \<Rightarrow> 'u"
  URL_String :: "'u \<Rightarrow> string"
  http_NewRequest :: "string \<Rightarrow> string \<Rightarrow> string option \<Rightarrow> string + Request"
  checkValid :: "string \<Rightarrow> string option"

text \<open>
  \<open>json.Unmarshal(data, v)\<close>. The input is checked for well-formedness first; then a
  destination that is nil or not a pointer is refused with an \<open>InvalidUnmarshalError\<close>;
  only then is the input decoded into the value the pointer refers to. The decoder of the
  destination's type is \<open>decode\<close>: it returns the error it met, if any, and the destination
  as it left it.
\<close>

definition json_Unmarshal ::
  "(string \<Rightarrow> string option) \<Rightarrow> (string \<Rightarrow> 'a \<Rightarrow> string option \<times> 'a) \<Rightarrow> string \<Rightarrow> 'a iface
     \<Rightarrow> string option \<times> 'a iface" where
  "json_Unmarshal valid decode data v =
     (case valid data of
        Some err \<Rightarrow> (Some err, v)
      | None \<Rightarrow>
          (case v of
             NilInterface \<Rightarrow> (Some ''json: Unmarshal(nil)'', v)
           | NilPointer ty \<Rightarrow> (Some (''json: Unmarshal(nil '' @ ty @ '')''), v)
           | NonPointer ty x \<Rightarrow> (Some (''json: Unmarshal(non-pointer '' @ ty @ '')''), v)
           | Pointer x \<Rightarrow> (case decode data x of (err, x') \<Rightarrow> (err, Pointer x'))))"

subsection \<open>The client and its errors\<close>

text \<open>
  The \<open>Client\<close> struct. \<open>HTTPClient\<close> is the \<open>Do\<close> method of the transport the
  client holds; the context the request is sent with (\<open>req.WithContext(ctx)\<close>) is passed
  beside the request. A transport failure is \<open>Inl\<close> of the text of its error.
\<close>

record ('ctx, 'u) Client =
  HTTPClient :: "'ctx \<Rightarrow> Request \<Rightarrow> string + Response"
  BaseURL :: 'u
  UserAgent :: string

text \<open>
  The \<open>Error\<close> struct, with the fields and field types of the two composite literals in
  \<open>request\<close> (lines 224-229 and 233-237). Its declaration, that of \<open>ErrorDetails\<close> and
  the message constants live in a file of the package that is not among the sources at hand,
  so \<open>ErrorDetails\<close> is the type parameter \<open>'det\<close> and the constants are parameters.
\<close>

record 'det Error =
  Message :: string
  StatusCode :: int
  Details :: "'det option"
  RawDetails :: string

record 'det decls =
  ErrBadRequest :: string
  ErrUnauthorized :: string
  ErrTooManyRequests :: string
  ErrInternal :: string
  ErrUnexpected :: string
  ErrParseError :: string
  ErrorDetails_zero :: 'det
  ErrorDetails_decode :: "string \<Rightarrow> 'det \<Rightarrow> string option \<times> 'det"

text \<open>
  What \<open>request\<close> returns as its \<open>error\<close>: the value of a \<open>fmt.Errorf\<close> call, which
  holds a text only, or an \<open>Error\<close> struct.
\<close>

datatype 'det go_error =
    Errorf string
  | ErrorValue "'det Error"

subsection \<open>request\<close>

text \<open>The switch of lines 208-219.\<close>

definition status_message :: "'det decls \<Rightarrow> int \<Rightarrow> string" where
  "status_message D sc =
     (if sc = StatusBadRequest then ErrBadRequest D
      else if sc = StatusUnauthorized then ErrUnauthorized D
      else if sc = StatusTooManyRequests then ErrTooManyRequests D
      else if sc = StatusInternalServerError then ErrInternal D
      else ErrUnexpected D)"

text \<open>Lines 220-223: \<open>details\<close> points to the decoded value, or is nil when decoding failed.\<close>

definition parse_details :: "'u stdlib \<Rightarrow> 'det decls \<Rightarrow> string \<Rightarrow> 'det option" where
  "parse_details L D respBody =
     (case json_Unmarshal (checkValid L) (ErrorDetails_decode D) respBody
             (Pointer (ErrorDetails_zero D)) of
        (Some err, _) \<Rightarrow> None
      | (None, Pointer d) \<Rightarrow> Some d
      | (None, _) \<Rightarrow> None)"

text \<open>Lines 183-190: the request body, absent when \<open>data\<close> is the nil interface.\<close>

definition marshal_body :: "('d \<Rightarrow> string + string) \<Rightarrow> 'd option \<Rightarrow> string + string option" where
  "marshal_body marshal data =
     (case data of
        None \<Rightarrow> Inr None
      | Some d \<Rightarrow> (case marshal d of Inl err \<Rightarrow> Inl err | Inr b \<Rightarrow> Inr (Some b)))"

text \<open>
  \<open>request\<close> (lines 176-241). \<open>marshal\<close> is \<open>json.Marshal\<close> at the dynamic type of
  \<open>data\<close>, \<open>decode\<close> the decoder of the type \<open>result\<close> points to. The function returns
  its error (\<open>None\<close> for nil) and the destination \<open>result\<close> as the call leaves it.
\<close>

definition request ::
  "'u stdlib \<Rightarrow> 'det decls \<Rightarrow> ('ctx, 'u) Client \<Rightarrow> 'ctx \<Rightarrow> string \<Rightarrow> string
     \<Rightarrow> ('d \<Rightarrow> string + string) \<Rightarrow> 'd option
     \<Rightarrow> (string \<Rightarrow> 'r \<Rightarrow> string option \<times> 'r) \<Rightarrow> 'r iface
     \<Rightarrow> 'det go_error option \<times> 'r iface" where
  "request L D c ctx method path marshal data decode result =
     (case url_Parse L path of
        Inl err \<Rightarrow> (Some (Errorf (''daily: failed to parse request path: '' @ err)), result)
      | Inr rel \<Rightarrow>
          (let u = ResolveReference L (BaseURL c) rel in
           case marshal_body marshal data of
             Inl err \<Rightarrow> (Some (Errorf (''daily: failed to parse request data: '' @ err)), result)
           | Inr body \<Rightarrow>
               (case http_NewRequest L method (URL_String L u) body of
                  Inl err \<Rightarrow> (Some (Errorf (''daily: failed to build request: '' @ err)), result)
                | Inr req \<Rightarrow>
                    (let req' = req\<lparr>req_Header := Header_Set (req_Header req) ''User-Agent'' (UserAgent c)\<rparr> in
                     case HTTPClient c ctx req' of
                       Inl err \<Rightarrow> (Some (Errorf (''daily: request failed: '' @ err)), result)
                     | Inr resp \<Rightarrow>
                         (let respBody = resp_Body resp in
                          if resp_StatusCode resp \<noteq> StatusOK then
                            (Some (ErrorValue
                               \<lparr>Message = status_message D (resp_StatusCode resp),
                                StatusCode = resp_StatusCode resp,
                                Details = parse_details L D respBody,
                                RawDetails = respBody\<rparr>), result)
                          else
                            (case json_Unmarshal (checkValid L) decode respBody result of
                               (Some err, result') \<Rightarrow>
                                 (Some (ErrorValue
                                    \<lparr>Message = ErrParseError D @ '': '' @ err,
                                     StatusCode = resp_StatusCode resp,
                                     Details = None,
                                     RawDetails = respBody\<rparr>), result')
                             | (None, result') \<Rightarrow> (None, result')))))))"

text \<open>
  The first half of \<open>request\<close> on its own (lines 177-204): the response the transport
  returned, or the error \<open>request\<close> returns without having received one.
\<close>

definition exchange ::
  "'u stdlib \<Rightarrow> ('ctx, 'u) Client \<Rightarrow> 'ctx \<Rightarrow> string \<Rightarrow> string
     \<Rightarrow> ('d \<Rightarrow> string + string) \<Rightarrow> 'd option \<Rightarrow> string + Response" where
  "exchange L c ctx method path marshal data =
     (case url_Parse L path of
        Inl err \<Rightarrow> Inl (''daily: failed to parse request path: '' @ err)
      | Inr rel \<Rightarrow>
          (case marshal_body marshal data of
             Inl err \<Rightarrow> Inl (''daily: failed to parse request data: '' @ err)
           | Inr body \<Rightarrow>
               (case http_NewRequest L method
                       (URL_String L (ResolveReference L (BaseURL c) rel)) body of
                  Inl err \<Rightarrow> Inl (''daily: failed to build request: '' @ err)
                | Inr req \<Rightarrow>
                    (case HTTPClient c ctx
                            (req\<lparr>req_Header := Header_Set (req_Header req) ''User-Agent'' (UserAgent c)\<rparr>) of
                       Inl err \<Rightarrow> Inl (''daily: request failed: '' @ err)
                     | Inr resp \<Rightarrow> Inr resp))))"

section \<open>JSON values and the struct declarations of models.go and requests.go\<close>

subsection \<open>JSON values\<close>

text \<open>
  What \<open>encoding/json\<close> does with the struct declarations of the package, stated on
  JSON values: which members a struct is written as, and what a struct holds after an
  object was decoded into it. Printing a value as text and parsing text into a value are
  the library's and stay outside.
\<close>

text \<open>
  A JSON document as a value. \<open>JInt\<close> is a number literal with neither fraction nor
  exponent, \<open>JFloat\<close> any other number literal, kept as its text. \<open>JString\<close> holds the
  text of a string literal with its escapes resolved. An object keeps its members in the
  order of the document, repeated keys included.
\<close>

datatype json =
    JNull
  | JBool bool
  | JInt int
  | JFloat string
  | JString string
  | JArray "json list"
  | JObject "(string \<times> json) list"

text \<open>
  The error of a decoder: a JSON value (first string) that the Go type (second string)
  cannot hold, or the error of a type's own \<open>UnmarshalJSON\<close> method.
\<close>

datatype decode_error =
    UnmarshalTypeError string string
  | UnmarshalerError string

definition json_kind :: "json \<Rightarrow> string" where
  "json_kind j =
     (case j of
        JNull \<Rightarrow> ''null''
      | JBool _ \<Rightarrow> ''bool''
      | JInt _ \<Rightarrow> ''number''
      | JFloat _ \<Rightarrow> ''number''
      | JString _ \<Rightarrow> ''string''
      | JArray _ \<Rightarrow> ''array''
      | JObject _ \<Rightarrow> ''object'')"

subsection \<open>Strings: coercion to valid UTF-8\<close>






subsection \<open>Encoding and decoding of the field types\<close>







definition dec_int64 :: "json \<Rightarrow> 64 word \<Rightarrow> decode_error + 64 word" where
  "dec_int64 j cur =
     (case j of
        JNull \<Rightarrow> Inr cur
      | JInt n \<Rightarrow>
          if - (2 ^ 63) \<le> n \<and> n < 2 ^ 63 then Inr (word_of_int n)
          else Inl (UnmarshalTypeError ''number'' ''int64'')
      | _ \<Rightarrow> Inl (UnmarshalTypeError (json_kind j) ''int64''))"

definition dec_int32 :: "json \<Rightarrow> 32 word \<Rightarrow> decode_error + 32 word" where
  "dec_int32 j cur =
     (case j of
        JNull \<Rightarrow> Inr cur
      | JInt n \<Rightarrow>
          if - (2 ^ 31) \<le> n \<and> n < 2 ^ 31 then Inr (word_of_int n)
          else Inl (UnmarshalTypeError ''number'' ''int32'')
      | _ \<Rightarrow> Inl (UnmarshalTypeError (json_kind j) ''int32''))"


subsection \<open>Structs\<close>














subsection \<open>time.Time\<close>

text \<open>
  A \<open>time.Time\<close> is an instant, held as whole seconds and the nanoseconds (0 to
  999999999) within the second, and a location that says how to display it. \<open>unix_sec\<close>
  counts the seconds from the Unix epoch, so the instant is \<open>unix_sec\<close> seconds plus
  \<open>nsec\<close> nanoseconds after the epoch, and \<open>t.Unix()\<close> returns \<open>unix_sec\<close>.
\<close>

record Time =
  unix_sec :: "64 word"
  nsec :: nat
  loc :: string




subsection \<open>models.go\<close>

type_synonym RoomPrivacy = string

definition Public :: RoomPrivacy where "Public = ''public''"
definition Private :: RoomPrivacy where "Private = ''private''"
definition Org :: RoomPrivacy where "Org = ''org''"

text \<open>\<open>RoomConfig\<close> (lines 57-79): every field a pointer with \<open>omitempty\<close>.\<close>

record RoomConfig =
  NotBefore :: "64 word option"
  ExpiresAt :: "64 word option"
  StartVideoOff :: "bool option"
  StartAudioOff :: "bool option"
  MaxParticipants :: "32 word option"
  AutoJoin :: "bool option"
  EnableKnocking :: "bool option"
  EnableScreenShare :: "bool option"
  EnableChat :: "bool option"
  OwnerOnlyBroadcast :: "bool option"
  EnableRecording :: "string option"
  EjectAtRoomExpiry :: "bool option"
  EjectAfterElapsed :: "32 word option"
  Lang :: "string option"
  MeetingJoinHook :: "string option"
  SignalingType :: "string option"
  SFUSwitchover :: "32 word option"
  EnableMeshSFU :: "bool option"
  EnableTerseLogging :: "bool option"
  EnableHiddenParticipants :: "bool option"



text \<open>\<open>Room\<close> (lines 24-32): no field has \<open>omitempty\<close>; \<open>CreatedAt\<close> is a \<open>time.Time\<close>.\<close>

record Room =
  Room_ID :: string
  Room_Name :: string
  APICreated :: bool
  Room_Privacy :: RoomPrivacy
  Room_URL :: string
  CreatedAt :: Time
  Room_Config :: "RoomConfig option"

definition Time_zero :: Time where
  "Time_zero = \<lparr>unix_sec = word_of_int (- 62135596800), nsec = 0, loc = ''UTC''\<rparr>"

definition Room_zero :: Room where
  "Room_zero =
     \<lparr>Room_ID = [], Room_Name = [], APICreated = False, Room_Privacy = [], Room_URL = [],
      CreatedAt = Time_zero, Room_Config = None\<rparr>"


text \<open>The helpers of lines 117-151. A pointer to a fresh copy of a value is \<open>Some\<close> of it.\<close>

definition String :: "string \<Rightarrow> string option" where
  "String s = Some s"


definition Int32 :: "32 word \<Rightarrow> 32 word option" where
  "Int32 i = Some i"


definition Bool :: "bool \<Rightarrow> bool option" where
  "Bool b = Some b"

definition True_bool :: "bool option" where
  "True_bool = Bool True"

definition False_bool :: "bool option" where
  "False_bool = Bool False"

subsection \<open>requests.go\<close>

text \<open>\<open>ListRoomsRequest\<close> (lines 5-9) and \<open>ListRoomsResponse\<close> (lines 13-16).\<close>

record ListRoomsRequest =
  ListRooms_Limit :: "32 word"
  ListRooms_EndingBefore :: string
  EndingAfter :: string

definition ListRoomsRequest_zero :: ListRoomsRequest where
  "ListRoomsRequest_zero = \<lparr>ListRooms_Limit = 0, ListRooms_EndingBefore = [], EndingAfter = []\<rparr>"

record ListRoomsResponse =
  TotalCount :: "32 word"
  Rooms :: "Room list"

definition ListRoomsResponse_zero :: ListRoomsResponse where
  "ListRoomsResponse_zero = \<lparr>TotalCount = 0, Rooms = []\<rparr>"




text \<open>
  \<open>MeetingToken\<close> and \<open>Permissions\<close> of models.go (lines 52-55 and 82-99);
  \<open>GetMeetingTokenResponse\<close> is declared as \<open>MeetingToken\<close>. A slice is a list, or
  \<open>None\<close> when it is nil.
\<close>

record Permissions =
  CanSend :: "string list option option"
  HasPresence :: "bool option"

record MeetingToken =
  Token_NotBefore :: "64 word option"
  Token_ExpiresAt :: "64 word option"
  Token_RoomName :: "string option"
  Token_IsOwner :: "bool option"
  Token_UserName :: "string option"
  Token_UserID :: "string option"
  Token_EnableScreenShare :: "bool option"
  Token_StartVideoOff :: "bool option"
  Token_StartAudioOff :: "bool option"
  Token_EnableRecording :: "string option"
  Token_StartCloudRecording :: "bool option"
  Token_CloseTabOnExit :: "bool option"
  Token_EjectAtRoomExpiry :: "bool option"
  Token_EjectAfterElapsed :: "32 word option"
  Token_Lang :: "string option"
  Token_Permissions :: "Permissions option"

definition MeetingToken_zero :: MeetingToken where
  "MeetingToken_zero =
     \<lparr>Token_NotBefore = None, Token_ExpiresAt = None, Token_RoomName = None,
      Token_IsOwner = None, Token_UserName = None, Token_UserID = None,
      Token_EnableScreenShare = None, Token_StartVideoOff = None,
      Token_StartAudioOff = None, Token_EnableRecording = None,
      Token_StartCloudRecording = None, Token_CloseTabOnExit = None,
      Token_EjectAtRoomExpiry = None, Token_EjectAfterElapsed = None, Token_Lang = None,
      Token_Permissions = None\<rparr>"

text \<open>
  \<open>Recording\<close> (models.go, lines 106-115) and \<open>GetRecordingResponse\<close> (requests.go,
  lines 60-63). A Go \<open>int\<close> is an integer; nothing here computes with one.
\<close>

record Recording =
  Recording_Id :: string
  StartTs :: int
  Recording_Status :: string
  Recording_MaxParticipants :: int
  Recording_RoomName :: string
  Tracks :: "json list option"
  Duration :: int
  ShareToken :: string

record GetRecordingResponse =
  Recordings_TotalCount :: int
  Recordings :: "Recording list option"

definition GetRecordingResponse_zero :: GetRecordingResponse where
  "GetRecordingResponse_zero = \<lparr>Recordings_TotalCount = 0, Recordings = None\<rparr>"

subsection \<open>MeetingToken and Permissions as JSON\<close>









subsection \<open>Records whose strings the encoder leaves unchanged\<close>




section \<open>The client methods of daily.go\<close>

subsection \<open>Query strings\<close>

text \<open>\<open>generateUrlWithQueryParams\<close> (lines 166-174).\<close>

fun generateUrlWithQueryParams :: "string \<Rightarrow> string list \<Rightarrow> string" where
  "generateUrlWithQueryParams path [] = path"
| "generateUrlWithQueryParams path (p # ps) =
     foldl (\<lambda>path param. path @ ''&'' @ param) (path @ ''?'' @ p) ps"

text \<open>The verb \<open>%d\<close> of \<open>fmt.Sprintf\<close>: an integer in decimal.\<close>

fun decimal :: "nat \<Rightarrow> string" where
  "decimal n =
     (if n < 10 then [''0123456789'' ! n]
      else decimal (n div 10) @ [''0123456789'' ! (n mod 10)])"

definition Itoa :: "int \<Rightarrow> string" where
  "Itoa i = (if i < 0 then ''-'' @ decimal (nat (- i)) else decimal (nat i))"

text \<open>\<open>GetRecordingsParams\<close> (lines 117-122).\<close>

record GetRecordingsParams =
  Limit :: int
  EndingBefore :: string
  StartingAfter :: string
  RoomName :: string

text \<open>The slice \<open>params\<close> that \<open>GetRecordings\<close> builds (lines 127-139).\<close>

definition GetRecordings_params :: "GetRecordingsParams \<Rightarrow> string list" where
  "GetRecordings_params p =
     (if 0 < Limit p then [''limit='' @ Itoa (Limit p)] else []) @
     (if EndingBefore p \<noteq> [] then [''&ending_before='' @ EndingBefore p] else []) @
     (if StartingAfter p \<noteq> [] then [''&starting_after='' @ StartingAfter p] else []) @
     (if RoomName p \<noteq> [] then [''room_name='' @ RoomName p] else [])"

text \<open>The path \<open>GetRecordings\<close> passes to \<open>request\<close> (line 140).\<close>

definition GetRecordings_path :: "GetRecordingsParams \<Rightarrow> string" where
  "GetRecordings_path p = generateUrlWithQueryParams ''/v1/recordings'' (GetRecordings_params p)"

subsection \<open>Paths that hold an identifier\<close>

text \<open>
  The path each method passes to \<open>request\<close>: \<open>GetRoom\<close> (line 89), \<open>UpdateRoom\<close>
  (line 95), \<open>DeleteRoom\<close> (line 102), \<open>GetMeetingToken\<close> (line 114), \<open>StartRecording\<close>
  (line 146), \<open>StopRecording\<close> (line 152), \<open>DeleteRecording\<close> (line 158) and
  \<open>GetRecordingLink\<close> (line 163).
\<close>

definition GetRoom_path :: "string \<Rightarrow> string" where
  "GetRoom_path name = ''rooms/'' @ name"


definition DeleteRoom_path :: "string \<Rightarrow> string" where
  "DeleteRoom_path name = ''rooms/'' @ name"

definition GetMeetingToken_path :: "string \<Rightarrow> string" where
  "GetMeetingToken_path token = ''meeting-tokens/'' @ token"



definition DeleteRecording_path :: "string \<Rightarrow> string" where
  "DeleteRecording_path recordingID = ''recordings/'' @ recordingID"


subsection \<open>Methods\<close>

text \<open>
  A method that passes \<open>nil\<close> as \<open>data\<close> sends no body; \<open>json.Marshal\<close> is not called,
  and \<open>marshal_nil\<close> stands in its place.
\<close>

definition marshal_nil :: "unit \<Rightarrow> string + string" where
  "marshal_nil u = Inr ''null''"

text \<open>
  The methods return what \<open>request\<close> returns: the error, and for a method with a response
  the destination \<open>resp\<close> it handed over. \<open>marshal\<close> and \<open>decode\<close> are the JSON encoder
  and decoder of the method's request and response types.
\<close>

text \<open>\<open>ListRooms\<close> (lines 72-78). \<open>req\<close> is a pointer: \<open>None\<close> is nil.\<close>

definition ListRooms ::
  "'u stdlib \<Rightarrow> 'det decls \<Rightarrow> (ListRoomsRequest option \<Rightarrow> string + string)
     \<Rightarrow> (string \<Rightarrow> ListRoomsResponse \<Rightarrow> string option \<times> ListRoomsResponse)
     \<Rightarrow> ('ctx, 'u) Client \<Rightarrow> 'ctx \<Rightarrow> ListRoomsRequest option
     \<Rightarrow> 'det go_error option \<times> ListRoomsResponse iface" where
  "ListRooms L D marshal decode c ctx req =
     (let req' = (if req = None then Some ListRoomsRequest_zero else req);
          resp = Pointer ListRoomsResponse_zero
      in request L D c ctx ''GET'' ''rooms'' marshal (Some req') decode resp)"

text \<open>\<open>GetRoom\<close> (lines 87-90); \<open>GetRoomResponse\<close> embeds \<open>Room\<close> and nothing else.\<close>

definition GetRoom ::
  "'u stdlib \<Rightarrow> 'det decls \<Rightarrow> (string \<Rightarrow> Room \<Rightarrow> string option \<times> Room)
     \<Rightarrow> ('ctx, 'u) Client \<Rightarrow> 'ctx \<Rightarrow> string \<Rightarrow> 'det go_error option \<times> Room iface" where
  "GetRoom L D decode c ctx name =
     request L D c ctx ''GET'' (GetRoom_path name) marshal_nil None decode (Pointer Room_zero)"

text \<open>\<open>DeleteRoom\<close> (lines 99-103): the destination is a pointer to an empty map.\<close>

definition DeleteRoom ::
  "'u stdlib \<Rightarrow> 'det decls \<Rightarrow> (string \<Rightarrow> (string \<rightharpoonup> json) \<Rightarrow> string option \<times> (string \<rightharpoonup> json))
     \<Rightarrow> ('ctx, 'u) Client \<Rightarrow> 'ctx \<Rightarrow> string \<Rightarrow> 'det go_error option" where
  "DeleteRoom L D decode c ctx name =
     fst (request L D c ctx ''DELETE'' (DeleteRoom_path name) marshal_nil None decode
            (Pointer Map.empty))"

text \<open>\<open>GetMeetingToken\<close> (lines 112-115).\<close>

definition GetMeetingToken ::
  "'u stdlib \<Rightarrow> 'det decls \<Rightarrow> (string \<Rightarrow> MeetingToken \<Rightarrow> string option \<times> MeetingToken)
     \<Rightarrow> ('ctx, 'u) Client \<Rightarrow> 'ctx \<Rightarrow> string
     \<Rightarrow> 'det go_error option \<times> MeetingToken iface" where
  "GetMeetingToken L D decode c ctx token =
     request L D c ctx ''GET'' (GetMeetingToken_path token) marshal_nil None decode
       (Pointer MeetingToken_zero)"

text \<open>\<open>GetRecordings\<close> (lines 124-141).\<close>

definition GetRecordings ::
  "'u stdlib \<Rightarrow> 'det decls
     \<Rightarrow> (string \<Rightarrow> GetRecordingResponse \<Rightarrow> string option \<times> GetRecordingResponse)
     \<Rightarrow> ('ctx, 'u) Client \<Rightarrow> 'ctx \<Rightarrow> GetRecordingsParams
     \<Rightarrow> 'det go_error option \<times> GetRecordingResponse iface" where
  "GetRecordings L D decode c ctx p =
     request L D c ctx ''GET'' (GetRecordings_path p) marshal_nil None decode
       (Pointer GetRecordingResponse_zero)"

text \<open>
  \<open>DeleteRecording\<close> (lines 156-159): the destination is the map itself, not a pointer
  to it (\<open>resp\<close>, where \<open>DeleteRoom\<close> and \<open>StopRecording\<close> pass \<open>&resp\<close>).
\<close>

definition DeleteRecording ::
  "'u stdlib \<Rightarrow> 'det decls \<Rightarrow> (string \<Rightarrow> (string \<rightharpoonup> json) \<Rightarrow> string option \<times> (string \<rightharpoonup> json))
     \<Rightarrow> ('ctx, 'u) Client \<Rightarrow> 'ctx \<Rightarrow> string \<Rightarrow> 'det go_error option" where
  "DeleteRecording L D decode c ctx recordingID =
     fst (request L D c ctx ''DELETE'' (DeleteRecording_path recordingID) marshal_nil None decode
            (NonPointer ''map[string]interface {}'' Map.empty))"

subsection \<open>The escaped join the specification describes\<close>





section \<open>A library and a transport to run the client on\<close>

text \<open>
  Stand-ins for the parameters, used where a statement is evaluated on an example: a
  library whose URLs are their texts, whose \<open>url.Parse\<close> refuses a lone colon (as the Go
  one does: missing protocol scheme), whose \<open>http.NewRequest\<close> accepts every request and
  whose JSON syntax check accepts the empty object only; message constants; and a client
  whose transport gives every request the same outcome.
\<close>

definition stub_stdlib :: "string stdlib" where
  "stub_stdlib =
     \<lparr>url_Parse = (\<lambda>p. if p = '':'' then Inl ''missing protocol scheme'' else Inr p),
      ResolveReference = (\<lambda>base rel. base @ rel),
      URL_String = (\<lambda>u. u),
      http_NewRequest = (\<lambda>m u b. Inr \<lparr>req_Method = m, req_URL = u, req_Header = Map.empty, req_Body = b\<rparr>),
      checkValid = (\<lambda>s. if s = ''{}'' then None else Some ''invalid character'')\<rparr>"

definition stub_decls :: "unit decls" where
  "stub_decls =
     \<lparr>ErrBadRequest = ''bad request'',
      ErrUnauthorized = ''unauthorized'',
      ErrTooManyRequests = ''too many requests'',
      ErrInternal = ''internal error'',
      ErrUnexpected = ''unexpected error'',
      ErrParseError = ''parse error'',
      ErrorDetails_zero = (),
      ErrorDetails_decode = (\<lambda>s d. (None, d))\<rparr>"

definition stub_client :: "string + Response \<Rightarrow> (unit, string) Client" where
  "stub_client outcome =
     \<lparr>HTTPClient = (\<lambda>ctx req. outcome),
      BaseURL = ''https://api.daily.co/v1/'',
      UserAgent = ''daily-go/0.1''\<rparr>"

definition stub_decode :: "string \<Rightarrow> 'a \<Rightarrow> string option \<times> 'a" where
  "stub_decode s x = (None, x)"


section \<open>Properties of the dispatcher\<close>

lemma request_exchange:
  "request L D c ctx method path marshal data decode result =
     (case exchange L c ctx method path marshal data of
        Inl msg \<Rightarrow> (Some (Errorf msg), result)
      | Inr resp \<Rightarrow>
          (if resp_StatusCode resp \<noteq> StatusOK then
             (Some (ErrorValue
                \<lparr>Message = status_message D (resp_StatusCode resp),
                 StatusCode = resp_StatusCode resp,
                 Details = parse_details L D (resp_Body resp),
                 RawDetails = resp_Body resp\<rparr>), result)
           else
             (case json_Unmarshal (checkValid L) decode (resp_Body resp) result of
                (Some err, result') \<Rightarrow>
                  (Some (ErrorValue
                     \<lparr>Message = ErrParseError D @ '': '' @ err,
                      StatusCode = resp_StatusCode resp,
                      Details = None,
                      RawDetails = resp_Body resp\<rparr>), result')
              | (None, result') \<Rightarrow> (None, result'))))"
  unfolding request_def exchange_def Let_def
  by (simp split: sum.split)

lemma exchange_stub:
  "p \<noteq> '':'' \<Longrightarrow>
     exchange stub_stdlib (stub_client outcome) ctx method p marshal_nil None =
       (case outcome of Inl err \<Rightarrow> Inl (''daily: request failed: '' @ err) | Inr resp \<Rightarrow> Inr resp)"
  by (simp add: exchange_def stub_stdlib_def stub_client_def marshal_body_def split: sum.split)

text \<open>
  C1. When the transport returned a response whose status is not 200, \<open>request\<close> returns
  an \<open>Error\<close> whose message is chosen by the status (400, 401, 429, 500, any other),
  whose status code is that of the response and whose raw details are the body as read;
  the destination \<open>result\<close> is returned as it was passed.
\<close>

theorem request_status_error:
  assumes "exchange L c ctx method path marshal data = Inr resp"
    and "resp_StatusCode resp \<noteq> 200"
  shows "request L D c ctx method path marshal data decode result =
           (Some (ErrorValue
              \<lparr>Message =
                 (if resp_StatusCode resp = 400 then ErrBadRequest D
                  else if resp_StatusCode resp = 401 then ErrUnauthorized D
                  else if resp_StatusCode resp = 429 then ErrTooManyRequests D
                  else if resp_StatusCode resp = 500 then ErrInternal D
                  else ErrUnexpected D),
               StatusCode = resp_StatusCode resp,
               Details = parse_details L D (resp_Body resp),
               RawDetails = resp_Body resp\<rparr>), result)"
  using assms
  by (simp add: request_exchange status_message_def StatusOK_def StatusBadRequest_def
      StatusUnauthorized_def StatusTooManyRequests_def StatusInternalServerError_def)

theorem request_status_error_witness:
  "exchange stub_stdlib (stub_client (Inr \<lparr>resp_StatusCode = 429, resp_Body = ''slow down''\<rparr>)) ()
       ''GET'' ''rooms/lobby'' marshal_nil None
     = Inr \<lparr>resp_StatusCode = 429, resp_Body = ''slow down''\<rparr>
   \<and> request stub_stdlib stub_decls
         (stub_client (Inr \<lparr>resp_StatusCode = 429, resp_Body = ''slow down''\<rparr>)) ()
         ''GET'' ''rooms/lobby'' marshal_nil None stub_decode (Pointer Room_zero)
     = (Some (ErrorValue
          \<lparr>Message = ''too many requests'', StatusCode = 429, Details = None,
           RawDetails = ''slow down''\<rparr>), Pointer Room_zero)"
proof -
  let ?resp = "\<lparr>resp_StatusCode = 429, resp_Body = ''slow down''\<rparr>"
  have ex: "exchange stub_stdlib (stub_client (Inr ?resp)) () ''GET'' ''rooms/lobby'' marshal_nil None
              = Inr ?resp"
    by (simp add: exchange_stub)
  have st: "resp_StatusCode ?resp \<noteq> 200"
    by simp
  have det: "parse_details stub_stdlib stub_decls ''slow down'' = None"
    by (simp add: parse_details_def json_Unmarshal_def stub_stdlib_def)
  show ?thesis
    using request_status_error [OF ex st, of stub_decls stub_decode "Pointer Room_zero"] ex det
    by (simp add: stub_decls_def)
qed

text \<open>
  C2. When the transport returned a response with status 200 and decoding its body into
  the destination failed, \<open>request\<close> returns an \<open>Error\<close>, not nil: its message is the
  parse-error constant followed by the decoder's error, its status code is 200 and its raw
  details are the body as read.
\<close>

theorem request_parse_error:
  assumes "exchange L c ctx method path marshal data = Inr resp"
    and "resp_StatusCode resp = 200"
    and "json_Unmarshal (checkValid L) decode (resp_Body resp) result = (Some err, result')"
  shows "request L D c ctx method path marshal data decode result =
           (Some (ErrorValue
              \<lparr>Message = ErrParseError D @ '': '' @ err,
               StatusCode = 200,
               Details = None,
               RawDetails = resp_Body resp\<rparr>), result')"
  using assms by (simp add: request_exchange StatusOK_def)

theorem request_parse_error_witness:
  "exchange stub_stdlib (stub_client (Inr \<lparr>resp_StatusCode = 200, resp_Body = ''<html>''\<rparr>)) ()
       ''GET'' ''rooms/lobby'' marshal_nil None
     = Inr \<lparr>resp_StatusCode = 200, resp_Body = ''<html>''\<rparr>
   \<and> json_Unmarshal (checkValid stub_stdlib) stub_decode ''<html>'' (Pointer Room_zero)
     = (Some ''invalid character'', Pointer Room_zero)
   \<and> request stub_stdlib stub_decls
         (stub_client (Inr \<lparr>resp_StatusCode = 200, resp_Body = ''<html>''\<rparr>)) ()
         ''GET'' ''rooms/lobby'' marshal_nil None stub_decode (Pointer Room_zero)
     = (Some (ErrorValue
          \<lparr>Message = ''parse error: invalid character'', StatusCode = 200, Details = None,
           RawDetails = ''<html>''\<rparr>), Pointer Room_zero)"
proof -
  let ?resp = "\<lparr>resp_StatusCode = 200, resp_Body = ''<html>''\<rparr>"
  have ex: "exchange stub_stdlib (stub_client (Inr ?resp)) () ''GET'' ''rooms/lobby'' marshal_nil None
              = Inr ?resp"
    by (simp add: exchange_stub)
  have st: "resp_StatusCode ?resp = 200"
    by simp
  have un: "json_Unmarshal (checkValid stub_stdlib) stub_decode (resp_Body ?resp) (Pointer Room_zero)
              = (Some ''invalid character'', Pointer Room_zero)"
    by (simp add: json_Unmarshal_def stub_stdlib_def)
  show ?thesis
    using request_parse_error [OF ex st un, of stub_decls] ex un
    by (simp add: stub_decls_def)
qed

text \<open>
  C6. When the status is not 200 and the body does not decode into \<open>ErrorDetails\<close>,
  \<open>request\<close> still returns the \<open>Error\<close> the status selects, with the raw body and nil
  details; the failure to decode the details changes nothing else.
\<close>

theorem request_details_unparsed:
  assumes "exchange L c ctx method path marshal data = Inr resp"
    and "resp_StatusCode resp \<noteq> 200"
    and "fst (json_Unmarshal (checkValid L) (ErrorDetails_decode D) (resp_Body resp)
                (Pointer (ErrorDetails_zero D))) = Some err"
  shows "request L D c ctx method path marshal data decode result =
           (Some (ErrorValue
              \<lparr>Message = status_message D (resp_StatusCode resp),
               StatusCode = resp_StatusCode resp,
               Details = None,
               RawDetails = resp_Body resp\<rparr>), result)"
proof -
  from assms(3) have "parse_details L D (resp_Body resp) = None"
    by (cases "json_Unmarshal (checkValid L) (ErrorDetails_decode D) (resp_Body resp)
                 (Pointer (ErrorDetails_zero D))")
       (simp add: parse_details_def)
  with assms(1,2) show ?thesis
    by (simp add: request_exchange StatusOK_def)
qed

theorem request_details_unparsed_witness:
  "exchange stub_stdlib (stub_client (Inr \<lparr>resp_StatusCode = 500, resp_Body = ''Bad Gateway''\<rparr>)) ()
       ''DELETE'' ''rooms/lobby'' marshal_nil None
     = Inr \<lparr>resp_StatusCode = 500, resp_Body = ''Bad Gateway''\<rparr>
   \<and> fst (json_Unmarshal (checkValid stub_stdlib) (ErrorDetails_decode stub_decls) ''Bad Gateway''
           (Pointer (ErrorDetails_zero stub_decls))) = Some ''invalid character''
   \<and> request stub_stdlib stub_decls
         (stub_client (Inr \<lparr>resp_StatusCode = 500, resp_Body = ''Bad Gateway''\<rparr>)) ()
         ''DELETE'' ''rooms/lobby'' marshal_nil None stub_decode (Pointer Room_zero)
     = (Some (ErrorValue
          \<lparr>Message = ''internal error'', StatusCode = 500, Details = None,
           RawDetails = ''Bad Gateway''\<rparr>), Pointer Room_zero)"
proof -
  let ?resp = "\<lparr>resp_StatusCode = 500, resp_Body = ''Bad Gateway''\<rparr>"
  have ex: "exchange stub_stdlib (stub_client (Inr ?resp)) () ''DELETE'' ''rooms/lobby'' marshal_nil None
              = Inr ?resp"
    by (simp add: exchange_stub)
  have st: "resp_StatusCode ?resp \<noteq> 200"
    by simp
  have un: "fst (json_Unmarshal (checkValid stub_stdlib) (ErrorDetails_decode stub_decls)
                   (resp_Body ?resp) (Pointer (ErrorDetails_zero stub_decls)))
              = Some ''invalid character''"
    by (simp add: json_Unmarshal_def stub_stdlib_def)
  show ?thesis
    using request_details_unparsed [OF ex st un, of stub_decode "Pointer Room_zero"] ex un
    by (simp add: stub_decls_def status_message_def StatusBadRequest_def
        StatusUnauthorized_def StatusTooManyRequests_def StatusInternalServerError_def)
qed





section \<open>Properties of the client methods\<close>

text \<open>
  C9. Whenever the transport answers \<open>DeleteRecording\<close> with status 200, the method
  returns the parse error, whatever the body: the destination it passes is a map and not a
  pointer, which \<open>json.Unmarshal\<close> refuses (after the syntax check of the body, which can
  only fail earlier).
\<close>

theorem DeleteRecording_parse_error:
  assumes "exchange L c ctx ''DELETE'' (''recordings/'' @ recordingID) marshal_nil None = Inr resp"
    and "resp_StatusCode resp = 200"
  shows "\<exists>err. DeleteRecording L D decode c ctx recordingID =
           Some (ErrorValue
              \<lparr>Message = ErrParseError D @ '': '' @ err,
               StatusCode = 200,
               Details = None,
               RawDetails = resp_Body resp\<rparr>)"
proof -
  obtain err where
    "json_Unmarshal (checkValid L) decode (resp_Body resp)
       (NonPointer ''map[string]interface {}'' Map.empty)
     = (Some err, NonPointer ''map[string]interface {}'' Map.empty)"
    by (cases "checkValid L (resp_Body resp)") (simp_all add: json_Unmarshal_def)
  with assms show ?thesis
    by (simp add: DeleteRecording_def DeleteRecording_path_def request_exchange StatusOK_def)
qed

theorem DeleteRecording_parse_error_witness:
  "exchange stub_stdlib (stub_client (Inr \<lparr>resp_StatusCode = 200, resp_Body = ''{}''\<rparr>)) ()
       ''DELETE'' (''recordings/'' @ ''r1'') marshal_nil None
     = Inr \<lparr>resp_StatusCode = 200, resp_Body = ''{}''\<rparr>
   \<and> DeleteRecording stub_stdlib stub_decls stub_decode
         (stub_client (Inr \<lparr>resp_StatusCode = 200, resp_Body = ''{}''\<rparr>)) () ''r1''
     = Some (ErrorValue
          \<lparr>Message = ''parse error: json: Unmarshal(non-pointer map[string]interface {})'',
           StatusCode = 200, Details = None, RawDetails = ''{}''\<rparr>)"
proof -
  let ?resp = "\<lparr>resp_StatusCode = 200, resp_Body = ''{}''\<rparr>"
  have ex: "exchange stub_stdlib (stub_client (Inr ?resp)) () ''DELETE'' (''recordings/'' @ ''r1'')
              marshal_nil None = Inr ?resp"
    by (simp add: exchange_stub)
  have st: "resp_StatusCode ?resp = 200"
    by simp
  show ?thesis
    using DeleteRecording_parse_error [OF ex st, of stub_decls stub_decode] ex
    by (simp add: stub_decls_def DeleteRecording_def DeleteRecording_path_def request_exchange
        StatusOK_def json_Unmarshal_def stub_stdlib_def)
qed

text \<open>
  C10. \<open>ListRooms\<close> called with a nil request is \<open>ListRooms\<close> called with a pointer to
  the zero \<open>ListRoomsRequest\<close>: that value, not nil, is what reaches \<open>request\<close>.
\<close>

theorem ListRooms_nil_request:
  "ListRooms L D marshal decode c ctx None =
     ListRooms L D marshal decode c ctx
       (Some \<lparr>ListRooms_Limit = 0, ListRooms_EndingBefore = [], EndingAfter = []\<rparr>)
   \<and> ListRooms L D marshal decode c ctx None =
     request L D c ctx ''GET'' ''rooms'' marshal
       (Some (Some \<lparr>ListRooms_Limit = 0, ListRooms_EndingBefore = [], EndingAfter = []\<rparr>))
       decode (Pointer ListRoomsResponse_zero)"
  by (simp add: ListRooms_def ListRoomsRequest_zero_def)

text \<open>
  \<open>generateUrlWithQueryParams\<close> itself puts \<open>?\<close> before the first parameter and \<open>&\<close>
  before every later one, in the order of the slice.
\<close>

lemma generateUrlWithQueryParams_foldl:
  "foldl (\<lambda>path param. path @ ''&'' @ param) acc ps = acc @ concat (map (\<lambda>p. ''&'' @ p) ps)"
  by (induction ps arbitrary: acc) simp_all

lemma generateUrlWithQueryParams_joined:
  "generateUrlWithQueryParams path (p # ps) = path @ ''?'' @ p @ concat (map (\<lambda>q. ''&'' @ q) ps)"
  using generateUrlWithQueryParams_foldl [of "path @ ''?'' @ p" ps]
  by simp

lemma GetRecordings_path_limit_room_name:
  "GetRecordings_path \<lparr>Limit = 10, EndingBefore = [], StartingAfter = [], RoomName = ''x''\<rparr>
     = ''/v1/recordings?limit=10&room_name=x''"
  by (simp add: GetRecordings_path_def GetRecordings_params_def Itoa_def)

text \<open>
  C4 does not hold of \<open>GetRecordings\<close>: the parameters \<open>ending_before\<close> and
  \<open>starting_after\<close> are put into the slice with an ampersand of their own (lines 132 and
  135), so the first pair can follow \<open>?&\<close> and later pairs \<open>&&\<close>.
\<close>

theorem GetRecordings_path_stray_ampersand:
  "GetRecordings_path \<lparr>Limit = 0, EndingBefore = ''abc'', StartingAfter = [], RoomName = []\<rparr>
     = ''/v1/recordings?&ending_before=abc''
   \<and> GetRecordings_path \<lparr>Limit = 10, EndingBefore = ''abc'', StartingAfter = ''def'', RoomName = []\<rparr>
     = ''/v1/recordings?limit=10&&ending_before=abc&&starting_after=def''"
  by (simp add: GetRecordings_path_def GetRecordings_params_def Itoa_def)





section \<open>Properties of the JSON encoding of the records\<close>

subsection \<open>Encoding and decoding field by field\<close>



lemma dec_int64_sint [simp]: "dec_int64 (JInt (sint w)) cur = Inr w"
proof -
  have "- (2 ^ 63) \<le> sint w" "sint w < 2 ^ 63"
    using sint_ge [of w] sint_lt [of w] by simp_all
  then show ?thesis
    by (simp add: dec_int64_def)
qed

lemma dec_int32_sint [simp]: "dec_int32 (JInt (sint w)) cur = Inr w"
proof -
  have "- (2 ^ 31) \<le> sint w" "sint w < 2 ^ 31"
    using sint_ge [of w] sint_lt [of w] by simp_all
  then show ?thesis
    by (simp add: dec_int32_def)
qed






subsection \<open>Round trip\<close>




subsection \<open>Times\<close>












end
